theory Spec2Isabelle
  imports Complex_Main
begin

section \<open>Values, errors and comparison\<close>

text \<open>
  The rule engine of \<^verbatim>\<open>src/core/rule_system.py\<close>, embedded function by function.

  Python values that reach the engine are booleans, integers, floats and strings.
  Integers are unbounded (\<open>int\<close>). A float is modelled by the exact rational it denotes,
  or one of the three special values; the rounding of IEEE doubles is not modelled.
  Strings are \<open>char list\<close>, read as ASCII text.
\<close>

datatype pyfloat = Fin rat | PosInf | NegInf | NaN

datatype pyval = PBool bool | PInt int | PFloat pyfloat | PStr string

text \<open>
  What the engine raises. \<open>ParseError\<close> carries message, position and token, as the
  dataclass does. A \<open>ValueError\<close> carries the data its message is formatted from.
  \<open>AttributeError\<close> and \<open>TypeError\<close> are the interpreter's own: a method missing on
  a value, and an ordering between a string and a number.
\<close>

datatype verr =
    AttributeExists string
  | MinGreaterThanMax
  | StringNeedsAllowedValues
  | BooleanWithMinMax
  | UnknownAttribute string
  | MissingAttribute string
  | RuleExists string
  | RuleMissing string
  | UnknownAttributeInRule string
  | BadOperator
  | InvalidValue string pyval

datatype error =
    ParseError string nat string
  | ValueError verr
  | AttributeError string
  | TypeError string

type_synonym candidate = "(string \<times> pyval) list"

text \<open>
  A candidate is a Python dict: an association list in insertion order, looked up with
  \<open>map_of\<close>.
\<close>

subsection \<open>Strings\<close>

definition lower_char :: "char \<Rightarrow> char" where
  "lower_char c =
     (case map_of (zip ''ABCDEFGHIJKLMNOPQRSTUVWXYZ'' ''abcdefghijklmnopqrstuvwxyz'') c of
        Some d \<Rightarrow> d
      | None \<Rightarrow> c)"

definition lower :: "string \<Rightarrow> string" where
  "lower s = map lower_char s"

text \<open>\<open>str.split()\<close> and \<open>str.strip()\<close> without arguments work on whitespace.\<close>

definition is_space :: "char \<Rightarrow> bool" where
  "is_space c = (c \<in> set [CHR 0x09, CHR 0x0A, CHR 0x0B, CHR 0x0C, CHR 0x0D,
                          CHR 0x1C, CHR 0x1D, CHR 0x1E, CHR 0x1F, CHR 0x20,
                          CHR 0x85, CHR 0xA0])"

text \<open>Python orders strings lexicographically by code point.\<close>

fun str_lt :: "string \<Rightarrow> string \<Rightarrow> bool" where
  "str_lt [] [] = False"
| "str_lt [] (y # ys) = True"
| "str_lt (x # xs) [] = False"
| "str_lt (x # xs) (y # ys) =
     (if (of_char x :: nat) < of_char y then True
      else if x = y then str_lt xs ys
      else False)"

subsection \<open>Numbers\<close>

text \<open>\<open>bool\<close> is a subclass of \<open>int\<close>: \<open>True\<close> counts as 1 in every comparison.\<close>

fun as_num :: "pyval \<Rightarrow> pyfloat option" where
  "as_num (PBool b) = Some (Fin (if b then 1 else 0))"
| "as_num (PInt i) = Some (Fin (of_int i))"
| "as_num (PFloat f) = Some f"
| "as_num (PStr s) = None"

fun flt_lt :: "pyfloat \<Rightarrow> pyfloat \<Rightarrow> bool" where
  "flt_lt (Fin a) (Fin b) = (a < b)"
| "flt_lt (Fin a) PosInf = True"
| "flt_lt (Fin a) NegInf = False"
| "flt_lt NegInf (Fin b) = True"
| "flt_lt NegInf PosInf = True"
| "flt_lt NegInf NegInf = False"
| "flt_lt PosInf b = False"
| "flt_lt NaN b = False"
| "flt_lt a NaN = False"

definition flt_eq :: "pyfloat \<Rightarrow> pyfloat \<Rightarrow> bool" where
  "flt_eq a b = (a \<noteq> NaN \<and> a = b)"

text \<open>\<open>==\<close> never raises: values of unrelated types are unequal.\<close>

fun py_eq :: "pyval \<Rightarrow> pyval \<Rightarrow> bool" where
  "py_eq (PStr a) (PStr b) = (a = b)"
| "py_eq a b =
     (case (as_num a, as_num b) of
        (Some x, Some y) \<Rightarrow> flt_eq x y
      | _ \<Rightarrow> False)"

text \<open>
  The four orderings: two strings, or two numbers. Anything else is the interpreter's
  \<open>TypeError\<close> (\<open>'<' not supported between instances of ...\<close>), tagged with the operator.
\<close>

fun py_order ::
  "string \<Rightarrow> (string \<Rightarrow> string \<Rightarrow> bool) \<Rightarrow> (pyfloat \<Rightarrow> pyfloat \<Rightarrow> bool) \<Rightarrow> pyval \<Rightarrow> pyval
    \<Rightarrow> error + bool" where
  "py_order opr fs fn (PStr a) (PStr b) = Inr (fs a b)"
| "py_order opr fs fn a b =
     (case (as_num a, as_num b) of
        (Some x, Some y) \<Rightarrow> Inr (fn x y)
      | _ \<Rightarrow> Inl (TypeError opr))"

definition py_lt :: "pyval \<Rightarrow> pyval \<Rightarrow> error + bool" where
  "py_lt = py_order ''<'' str_lt flt_lt"

definition py_gt :: "pyval \<Rightarrow> pyval \<Rightarrow> error + bool" where
  "py_gt = py_order ''>'' (\<lambda>a b. str_lt b a) (\<lambda>x y. flt_lt y x)"

definition py_le :: "pyval \<Rightarrow> pyval \<Rightarrow> error + bool" where
  "py_le = py_order ''<='' (\<lambda>a b. str_lt a b \<or> a = b) (\<lambda>x y. flt_lt x y \<or> flt_eq x y)"

definition py_ge :: "pyval \<Rightarrow> pyval \<Rightarrow> error + bool" where
  "py_ge = py_order ''>='' (\<lambda>a b. str_lt b a \<or> a = b) (\<lambda>x y. flt_lt y x \<or> flt_eq x y)"

text \<open>
  The comparison that \<open>condition.eval\<close> and \<open>decision.eval\<close> both spell out, for a
  candidate value \<open>cv\<close> and the literal \<open>v\<close>: \<open>=\<close> lower-cases both sides when the literal is
  a string, which calls \<open>.lower()\<close> on the candidate value whatever its type. \<open>None\<close>
  is the fall-through of the \<open>if\<close>/\<open>elif\<close> chain on an operator outside the five.
\<close>

definition compare :: "string \<Rightarrow> pyval \<Rightarrow> pyval \<Rightarrow> error + bool option" where
  "compare opr cv v =
     (if opr = ''='' then
        (case v of
           PStr l \<Rightarrow>
             (case cv of
                PStr s \<Rightarrow> Inr (Some (lower s = lower l))
              | _ \<Rightarrow> Inl (AttributeError ''lower''))
         | _ \<Rightarrow> Inr (Some (py_eq cv v)))
      else if opr = ''<'' then map_sum id Some (py_lt cv v)
      else if opr = ''>'' then map_sum id Some (py_gt cv v)
      else if opr = ''<='' then map_sum id Some (py_le cv v)
      else if opr = ''>='' then map_sum id Some (py_ge cv v)
      else Inr None)"

section \<open>The AST and its evaluation\<close>

text \<open>
  \<open>Condition attribute operator value invertion\<close> and \<open>Operation operator children
  invertion\<close>. The children of an operation are a Python set of objects compared by
  identity, so equal conditions stay separate members: a list, in insertion order. The
  iteration order of the set is not specified; it decides only which child's exception is
  seen first.
\<close>

datatype node =
    Condition string string pyval bool
  | Operation string "node list" bool

text \<open>
  \<open>operation.add\<close>. Only an operation has the method, and the parser calls it on nothing
  else; the second equation makes the function total.
\<close>

fun add :: "node \<Rightarrow> node \<Rightarrow> node" where
  "add (Operation opr children invertion) child = Operation opr (children @ [child]) invertion"
| "add (Condition a opr v invertion) child = Condition a opr v invertion"

fun node_eval :: "node \<Rightarrow> candidate \<Rightarrow> error + bool"
  and eval_children :: "node list \<Rightarrow> candidate \<Rightarrow> error + bool list" where
  "node_eval (Condition attribute opr v invertion) c =
     (case map_of c attribute of
        None \<Rightarrow> Inl (ValueError (MissingAttribute attribute))
      | Some cv \<Rightarrow>
          (case compare opr cv v of
             Inl e \<Rightarrow> Inl e
           | Inr r \<Rightarrow>
               (let result = (case r of None \<Rightarrow> False | Some b \<Rightarrow> b)
                in Inr (if invertion then \<not> result else result))))"
| "node_eval (Operation opr children invertion) c =
     (if children = [] then Inr True
      else
        (case eval_children children c of
           Inl e \<Rightarrow> Inl e
         | Inr results \<Rightarrow>
             (let result = (if opr = ''and'' then list_all id results else list_ex id results)
              in Inr (if invertion then \<not> result else result))))"
| "eval_children [] c = Inr []"
| "eval_children (child # rest) c =
     (case node_eval child c of
        Inl e \<Rightarrow> Inl e
      | Inr r \<Rightarrow> (case eval_children rest c of Inl e \<Rightarrow> Inl e | Inr rs \<Rightarrow> Inr (r # rs)))"

section \<open>The tokenizer\<close>

text \<open>\<open>re.sub(r'([()])', r' \1 ', rule)\<close>\<close>

fun sub_parens :: "string \<Rightarrow> string" where
  "sub_parens [] = []"
| "sub_parens (c # cs) =
     (if c = CHR ''('' \<or> c = CHR '')'' then CHR '' '' # c # CHR '' '' # sub_parens cs
      else c # sub_parens cs)"

text \<open>
  \<open>re.sub(r'(<=|>=|=|<|>)', r' \1 ', rule)\<close>: at each position the alternatives are tried
  from the left, so \<open><=\<close> and \<open>>=\<close> win over their first character.
\<close>

fun sub_operators :: "string \<Rightarrow> string" where
  "sub_operators [] = []"
| "sub_operators [c] =
     (if c = CHR ''='' \<or> c = CHR ''<'' \<or> c = CHR ''>'' then [CHR '' '', c, CHR '' ''] else [c])"
| "sub_operators (c # d # cs) =
     (if (c = CHR ''<'' \<or> c = CHR ''>'') \<and> d = CHR ''=''
        then CHR '' '' # c # d # CHR '' '' # sub_operators cs
      else if c = CHR ''='' \<or> c = CHR ''<'' \<or> c = CHR ''>''
        then CHR '' '' # c # CHR '' '' # sub_operators (d # cs)
      else c # sub_operators (d # cs))"

text \<open>\<open>rule.split()\<close>: the maximal runs of characters that are not whitespace.\<close>

fun split_ws :: "string \<Rightarrow> string \<Rightarrow> string list" where
  "split_ws cur [] = (if cur = [] then [] else [cur])"
| "split_ws cur (c # cs) =
     (if is_space c then (if cur = [] then split_ws [] cs else cur # split_ws [] cs)
      else split_ws (cur @ [c]) cs)"

text \<open>The loop of \<open>validate_tokens\<close>, with its counter and position.\<close>

fun count_parens :: "int \<Rightarrow> nat \<Rightarrow> string list \<Rightarrow> error + int" where
  "count_parens paren_count pos [] = Inr paren_count"
| "count_parens paren_count pos (token # rest) =
     (let paren_count' =
            (if token = ''('' then paren_count + 1
             else if token = '')'' then paren_count - 1
             else paren_count)
      in if paren_count' < 0 then Inl (ParseError ''Unmatched closing parenthesis'' pos token)
         else count_parens paren_count' (pos + 1) rest)"

definition validate_tokens :: "string list \<Rightarrow> error + unit" where
  "validate_tokens tokens =
     (if tokens = [] then Inl (ParseError ''Empty rule string'' 0 [])
      else
        (case count_parens 0 0 tokens of
           Inl e \<Rightarrow> Inl e
         | Inr paren_count \<Rightarrow>
             if paren_count > 0
               then Inl (ParseError ''Unmatched opening parenthesis'' (length tokens - 1) [])
             else Inr ()))"

text \<open>The two substitutions and the split of \<open>tokenize_rule\<close>.\<close>

definition split_tokens :: "string \<Rightarrow> string list" where
  "split_tokens rule = split_ws [] (sub_operators (sub_parens rule))"

text \<open>\<open>not rule.strip()\<close> holds of a string of whitespace only.\<close>

definition tokenize_rule :: "string \<Rightarrow> error + string list" where
  "tokenize_rule rule =
     (if list_all is_space rule then Inl (ParseError ''Empty rule string'' 0 [])
      else
        (let tokens = split_tokens rule
         in case validate_tokens tokens of
              Inl e \<Rightarrow> Inl e
            | Inr u \<Rightarrow> Inr tokens))"

section \<open>The parser\<close>

definition VALID_OPERATORS :: "string list" where
  "VALID_OPERATORS = [''='', ''<'', ''>'', ''<='', ''>='']"

definition VALID_LOGICAL_OPERATORS :: "string list" where
  "VALID_LOGICAL_OPERATORS = [''AND'', ''OR'', ''NOT'']"

subsection \<open>Literals\<close>

text \<open>\<open>tokens[pos].strip("'")\<close>\<close>

definition strip_quotes :: "string \<Rightarrow> string" where
  "strip_quotes s =
     rev (dropWhile (\<lambda>c. c = CHR 0x27) (rev (dropWhile (\<lambda>c. c = CHR 0x27) s)))"

definition digit_val :: "char \<Rightarrow> nat option" where
  "digit_val c = map_of (zip ''0123456789'' [0, 1, 2, 3, 4, 5, 6, 7, 8, 9]) c"

text \<open>
  The digits that \<open>int()\<close> and \<open>float()\<close> accept: at least one digit, single underscores
  between digits. The result is the value and the number of digits.
\<close>

fun digits_acc :: "nat \<Rightarrow> nat \<Rightarrow> string \<Rightarrow> (nat \<times> nat) option" where
  "digits_acc acc k [] = Some (acc, k)"
| "digits_acc acc k (c # cs) =
     (if c = CHR ''_'' then
        (case cs of
           [] \<Rightarrow> None
         | d # ds \<Rightarrow>
             (case digit_val d of
                None \<Rightarrow> None
              | Some n \<Rightarrow> digits_acc (10 * acc + n) (k + 1) ds))
      else
        (case digit_val c of
           None \<Rightarrow> None
         | Some n \<Rightarrow> digits_acc (10 * acc + n) (k + 1) cs))"

definition digits :: "string \<Rightarrow> (nat \<times> nat) option" where
  "digits s =
     (case s of
        [] \<Rightarrow> None
      | c # cs \<Rightarrow> (case digit_val c of None \<Rightarrow> None | Some n \<Rightarrow> digits_acc n 1 cs))"

definition split_sign :: "string \<Rightarrow> bool \<times> string" where
  "split_sign s =
     (case s of
        [] \<Rightarrow> (False, [])
      | c # cs \<Rightarrow>
          if c = CHR ''-'' then (True, cs)
          else if c = CHR ''+'' then (False, cs)
          else (False, s))"

text \<open>\<open>int(value)\<close>: \<open>None\<close> is its \<open>ValueError\<close>.\<close>

definition py_int :: "string \<Rightarrow> int option" where
  "py_int s =
     (case split_sign s of
        (neg, body) \<Rightarrow>
          (case digits body of
             None \<Rightarrow> None
           | Some (n, k) \<Rightarrow> Some (if neg then - int n else int n)))"

definition split_at :: "(char \<Rightarrow> bool) \<Rightarrow> string \<Rightarrow> string \<times> string option" where
  "split_at P s =
     (takeWhile (\<lambda>c. \<not> P c) s,
      case dropWhile (\<lambda>c. \<not> P c) s of [] \<Rightarrow> None | c # r \<Rightarrow> Some r)"

definition opt_digits :: "string \<Rightarrow> (nat \<times> nat) option" where
  "opt_digits s = (if s = [] then Some (0, 0) else digits s)"

definition mantissa :: "string \<Rightarrow> rat option" where
  "mantissa m =
     (case split_at (\<lambda>c. c = CHR ''.'') m of
        (ip, None) \<Rightarrow> map_option (\<lambda>(v, k). of_nat v) (digits ip)
      | (ip, Some fp) \<Rightarrow>
          if ip = [] \<and> fp = [] then None
          else
            (case (opt_digits ip, opt_digits fp) of
               (Some (iv, ik), Some (fv, fk)) \<Rightarrow> Some (of_nat iv + of_nat fv / 10 ^ fk)
             | _ \<Rightarrow> None))"

text \<open>
  \<open>float(value)\<close>: a decimal with an optional fraction and exponent, or \<open>inf\<close>,
  \<open>infinity\<close>, \<open>nan\<close> in any case, each with an optional sign. \<open>None\<close> is its
  \<open>ValueError\<close>.
\<close>

definition py_float :: "string \<Rightarrow> pyfloat option" where
  "py_float s =
     (case split_sign s of
        (neg, body) \<Rightarrow>
          if lower body = ''inf'' \<or> lower body = ''infinity''
            then Some (if neg then NegInf else PosInf)
          else if lower body = ''nan'' then Some NaN
          else
            (case split_at (\<lambda>c. c = CHR ''e'' \<or> c = CHR ''E'') body of
               (m, None) \<Rightarrow> map_option (\<lambda>r. Fin (if neg then - r else r)) (mantissa m)
             | (m, Some ex) \<Rightarrow>
                 (case (mantissa m, py_int ex) of
                    (Some r, Some e) \<Rightarrow>
                      (let x = (if 0 \<le> e then r * 10 ^ nat e else r / 10 ^ nat (- e))
                       in Some (Fin (if neg then - x else x)))
                  | _ \<Rightarrow> None)))"

text \<open>The conversion chain of \<open>parse_condition\<close>: boolean, integer, float, else string.\<close>

definition convert_value :: "string \<Rightarrow> pyval" where
  "convert_value v =
     (if lower v = ''true'' then PBool True
      else if lower v = ''false'' then PBool False
      else
        (case py_int v of
           Some i \<Rightarrow> PInt i
         | None \<Rightarrow> (case py_float v of Some f \<Rightarrow> PFloat f | None \<Rightarrow> PStr v)))"

subsection \<open>Conditions\<close>

definition parse_condition :: "string list \<Rightarrow> nat \<Rightarrow> error + (node \<times> nat)" where
  "parse_condition tokens pos =
     (if pos \<ge> length tokens
        then Inl (ParseError ''Unexpected end of rule while parsing condition'' pos [])
      else
        (let invertion = (tokens ! pos = ''NOT'');
             pos1 = (if invertion then pos + 1 else pos)
         in if invertion \<and> pos1 \<ge> length tokens
              then Inl (ParseError ''Unexpected end of rule after NOT operator'' pos1 [])
            else if pos1 \<ge> length tokens
              then Inl (ParseError ''Missing attribute in condition'' pos1 [])
            else
              (let attribute = tokens ! pos1
               in if attribute \<in> set VALID_OPERATORS \<or> attribute \<in> set VALID_LOGICAL_OPERATORS
                    then Inl (ParseError ''Invalid attribute name'' pos1 attribute)
                  else
                    (let pos2 = pos1 + 1
                     in if pos2 \<ge> length tokens
                          then Inl (ParseError
                                 (''Missing operator after attribute '' @ [CHR 0x27] @ attribute
                                    @ [CHR 0x27]) pos2 [])
                        else
                          (let operator = tokens ! pos2
                           in if operator \<notin> set VALID_OPERATORS
                                then Inl (ParseError ''Invalid comparison operator'' pos2 operator)
                              else
                                (let pos3 = pos2 + 1
                                 in if pos3 \<ge> length tokens
                                      then Inl (ParseError
                                             (''Missing value after operator '' @ [CHR 0x27]
                                                @ operator @ [CHR 0x27]) pos3 [])
                                    else
                                      Inr (Condition attribute operator
                                             (convert_value (strip_quotes (tokens ! pos3)))
                                             invertion,
                                           pos3 + 1)))))))"

subsection \<open>Expressions\<close>

fun operator_of :: "node \<Rightarrow> string" where
  "operator_of (Operation opr children invertion) = opr"
| "operator_of (Condition a opr v invertion) = opr"

lemma parse_condition_pos:
  "parse_condition tokens pos = Inr (cond, new_pos) \<Longrightarrow>
     pos < new_pos \<and> new_pos \<le> length tokens"
  by (auto simp: parse_condition_def Let_def split: if_splits)

text \<open>
  The \<open>while\<close> loop of \<open>parse_expression\<close>, with its two variables. Every branch that
  goes round again first meets the test at the end of the body (\<open>pos >= len(tokens)\<close> with
  an operation in hand returns it). Entered at or beyond the end, the loop falls through
  to the final \<open>raise\<close>, which is also what the guard of \<open>parse_expression\<close> raises; so the
  recursive call for a parenthesis is a call of the loop with no operation.
  The \<open>NOT\<close> branch and the last branch of the source are the same code.
\<close>

function parse_loop :: "string list \<Rightarrow> node option \<Rightarrow> nat \<Rightarrow> error + (node \<times> nat)" where
  "parse_loop tokens current_operation pos =
     (if \<not> pos < length tokens then Inl (ParseError ''Unexpected end of rule'' pos [])
      else
        (let token = tokens ! pos
         in if token = ''('' then
              (case parse_loop tokens None (pos + 1) of
                 Inl e \<Rightarrow> Inl e
               | Inr (sub_expr, new_pos) \<Rightarrow>
                   if new_pos \<ge> length tokens \<or> tokens ! new_pos \<noteq> '')''
                     then Inl (ParseError ''Missing closing parenthesis'' new_pos [])
                   else
                     (case current_operation of
                        None \<Rightarrow> Inr (sub_expr, new_pos + 1)
                      | Some cur \<Rightarrow>
                          if new_pos + 1 \<ge> length tokens then Inr (add cur sub_expr, new_pos + 1)
                          else parse_loop tokens (Some (add cur sub_expr)) (new_pos + 1)))
            else if token = '')'' then
              (case current_operation of
                 None \<Rightarrow> Inl (ParseError ''Unexpected closing parenthesis'' pos [])
               | Some cur \<Rightarrow> Inr (cur, pos))
            else if token = ''AND'' \<or> token = ''OR'' then
              (let cur' =
                     (case current_operation of
                        None \<Rightarrow> Operation (lower token) [] False
                      | Some cur \<Rightarrow>
                          if operator_of cur \<noteq> lower token
                            then add (Operation (lower token) [] False) cur
                          else cur)
               in if pos + 1 \<ge> length tokens then Inr (cur', pos + 1)
                  else parse_loop tokens (Some cur') (pos + 1))
            else
              (case parse_condition tokens pos of
                 Inl e \<Rightarrow> Inl e
               | Inr (cond, new_pos) \<Rightarrow>
                   (case current_operation of
                      None \<Rightarrow> Inr (cond, new_pos)
                    | Some cur \<Rightarrow>
                        if new_pos \<ge> length tokens then Inr (add cur cond, new_pos)
                        else parse_loop tokens (Some (add cur cond)) new_pos))))"
  by pat_completeness auto

text \<open>
  The loop continues from the position a nested expression returns, so its termination
  rests on that position never moving backwards.
\<close>

lemma parse_loop_pos:
  "parse_loop_dom (tokens, cur, pos) \<Longrightarrow> parse_loop tokens cur pos = Inr (e, q) \<Longrightarrow> pos \<le> q"
proof (induction tokens cur pos arbitrary: e q rule: parse_loop.pinduct)
  case (1 tokens cur pos)
  show ?case using "1.prems" "1.IH" "1.hyps"
    apply (subst (asm) parse_loop.psimps)
     apply assumption
    apply (auto simp: Let_def split: if_splits sum.splits option.splits prod.splits
                dest!: parse_condition_pos)
           apply (force
                  | (drule meta_spec, drule meta_spec, drule meta_spec, drule meta_mp,
                     rule refl, force)
                  | metis Suc_leD le_trans le_SucI)+
    done
qed

termination parse_loop
  apply (relation "measure (\<lambda>(tokens, cur, pos). length tokens - pos)")
      apply (auto dest!: parse_condition_pos parse_loop_pos)
  done

definition parse_expression :: "string list \<Rightarrow> nat \<Rightarrow> error + (node \<times> nat)" where
  "parse_expression tokens start =
     (if start \<ge> length tokens then Inl (ParseError ''Unexpected end of rule'' start [])
      else parse_loop tokens None start)"

text \<open>
  \<open>parse_rule\<close> re-raises a \<open>ParseError\<close> and wraps any other exception; the
  tokenizer and the parser raise nothing else on a string.
\<close>

definition parse_rule :: "string \<Rightarrow> error + node" where
  "parse_rule rule_str =
     (case tokenize_rule rule_str of
        Inl e \<Rightarrow> Inl e
      | Inr tokens \<Rightarrow>
          (case parse_expression tokens 0 of
             Inl e \<Rightarrow> Inl e
           | Inr (ast, pos) \<Rightarrow>
               if pos < length tokens
                 then Inl (ParseError ''Unexpected tokens after valid expression'' pos
                             (tokens ! pos))
               else Inr ast))"

section \<open>The decision tree\<close>

text \<open>\<open>decision\<close> and \<open>result_node\<close>.\<close>

datatype dtree =
    Decision string string pyval dtree dtree
  | Result bool

type_synonym triple = "string \<times> string \<times> pyval"

text \<open>
  \<open>find_conditions\<close> collects a Python set of tuples, which are equal when their
  components are (\<open>1\<close>, \<open>1.0\<close> and \<open>True\<close> are one value). The set is a list without
  such repetitions; its order stands for the iteration order of the set, which Python
  does not specify. A NaN is unequal to every value.
\<close>

definition triple_eq :: "triple \<Rightarrow> triple \<Rightarrow> bool" where
  "triple_eq s t =
     (case (s, t) of
        ((a, opr, v), (a', opr', v')) \<Rightarrow> a = a' \<and> opr = opr' \<and> py_eq v v')"

definition insert_triple :: "triple \<Rightarrow> triple list \<Rightarrow> triple list" where
  "insert_triple t ts = (if list_ex (\<lambda>s. triple_eq s t) ts then ts else ts @ [t])"

fun find_conditions :: "node \<Rightarrow> triple list"
  and update_conditions :: "triple list \<Rightarrow> node list \<Rightarrow> triple list" where
  "find_conditions (Condition attribute opr v invertion) = [(attribute, opr, v)]"
| "find_conditions (Operation opr children invertion) = update_conditions [] children"
| "update_conditions conditions [] = conditions"
| "update_conditions conditions (child # rest) =
     update_conditions (fold insert_triple (find_conditions child) conditions) rest"

text \<open>\<open>val - 1 if isinstance(val, (int, float)) else val\<close>; a boolean is an \<open>int\<close>.\<close>

fun minus_one :: "pyval \<Rightarrow> pyval" where
  "minus_one (PBool b) = PInt ((if b then 1 else 0) - 1)"
| "minus_one (PInt i) = PInt (i - 1)"
| "minus_one (PFloat (Fin r)) = PFloat (Fin (r - 1))"
| "minus_one (PFloat f) = PFloat f"
| "minus_one (PStr s) = PStr s"

text \<open>
  The first argument of \<open>create_decision_tree\<close> is the AST at the root and a boolean in
  every recursive call. With conditions remaining the function calls \<open>node.eval\<close>, which
  a boolean does not have. \<open>pop()\<close> takes the head of the list.
\<close>

datatype subject = Ast node | Bool bool

fun create_decision_tree :: "subject \<Rightarrow> triple list \<Rightarrow> error + dtree" where
  "create_decision_tree n [] =
     (case n of
        Bool b \<Rightarrow> Inr (Result b)
      | Ast a \<Rightarrow> (case node_eval a [] of Inl e \<Rightarrow> Inl e | Inr b \<Rightarrow> Inr (Result b)))"
| "create_decision_tree n ((attr, opr, val) # new_conditions) =
     (let true_candidate = [(attr, val)];
          false_candidate = [(attr, minus_one val)]
      in case n of
           Bool b \<Rightarrow> Inl (AttributeError ''eval'')
         | Ast a \<Rightarrow>
             (case node_eval a true_candidate of
                Inl e \<Rightarrow> Inl e
              | Inr true_result \<Rightarrow>
                  (case node_eval a false_candidate of
                     Inl e \<Rightarrow> Inl e
                   | Inr false_result \<Rightarrow>
                       (case create_decision_tree (Bool true_result) new_conditions of
                          Inl e \<Rightarrow> Inl e
                        | Inr true_tree \<Rightarrow>
                            (case create_decision_tree (Bool false_result) new_conditions of
                               Inl e \<Rightarrow> Inl e
                             | Inr false_tree \<Rightarrow>
                                 Inr (Decision attr opr val true_tree false_tree))))))"

definition transform_to_decision_tree :: "node \<Rightarrow> error + dtree" where
  "transform_to_decision_tree ast = create_decision_tree (Ast ast) (find_conditions ast)"

text \<open>
  The loop of \<open>RuleEngine.evaluate\<close> with \<open>decision.eval\<close> in its body: from a decision
  to one of its subtrees until a result. On an operator outside the five
  \<open>decision.eval\<close> returns \<open>None\<close>, and the next round calls \<open>eval\<close> on it.
\<close>

fun walk :: "dtree \<Rightarrow> candidate \<Rightarrow> error + bool" where
  "walk (Result v) c = Inr v"
| "walk (Decision attribute opr v true_tree false_tree) c =
     (case map_of c attribute of
        None \<Rightarrow> Inl (ValueError (MissingAttribute attribute))
      | Some cv \<Rightarrow>
          (case compare opr cv v of
             Inl e \<Rightarrow> Inl e
           | Inr None \<Rightarrow> Inl (AttributeError ''eval'')
           | Inr (Some result) \<Rightarrow> walk (if result then true_tree else false_tree) c))"

section \<open>The attribute catalog\<close>

datatype AttributeType = INTEGER | FLOAT | BOOLEAN | STRING

text \<open>
  The bounds are numbers (\<open>Optional[Union[int, float]]\<close>), kept by their numeric value.
\<close>

record AttributeDefinition =
  name :: string
  attr_type :: AttributeType
  min_value :: "pyfloat option"
  max_value :: "pyfloat option"
  allowed_values :: "string set option"

type_synonym AttributeCatalog = "string \<rightharpoonup> AttributeDefinition"

text \<open>
  The operations that change state return the outcome together with the state they leave
  behind, so that the state after a raised exception is part of the model.
\<close>

definition add_attribute ::
  "AttributeCatalog \<Rightarrow> AttributeDefinition \<Rightarrow> (error + unit) \<times> AttributeCatalog" where
  "add_attribute attributes definition =
     (if attributes (name definition) \<noteq> None
        then (Inl (ValueError (AttributeExists (name definition))), attributes)
      else if (attr_type definition = INTEGER \<or> attr_type definition = FLOAT)
              \<and> min_value definition \<noteq> None \<and> max_value definition \<noteq> None
              \<and> flt_lt (the (max_value definition)) (the (min_value definition))
        then (Inl (ValueError MinGreaterThanMax), attributes)
      else if attr_type definition = STRING
              \<and> (allowed_values definition = None \<or> allowed_values definition = Some {})
        then (Inl (ValueError StringNeedsAllowedValues), attributes)
      else if attr_type definition = BOOLEAN
              \<and> (min_value definition \<noteq> None \<or> max_value definition \<noteq> None)
        then (Inl (ValueError BooleanWithMinMax), attributes)
      else (Inr (), attributes(name definition \<mapsto> definition)))"

text \<open>The two range tests of \<open>validate_value\<close>, on a numeric value.\<close>

definition in_range :: "AttributeDefinition \<Rightarrow> pyfloat \<Rightarrow> bool" where
  "in_range attr x =
     (\<not> (min_value attr \<noteq> None \<and> flt_lt x (the (min_value attr)))
      \<and> \<not> (max_value attr \<noteq> None \<and> flt_lt (the (max_value attr)) x))"

text \<open>
  \<open>isinstance(value, int)\<close> holds of a boolean too. A string attribute without a set
  of allowed values cannot come out of \<open>add_attribute\<close>; on one, \<open>value not in None\<close>
  is a \<open>TypeError\<close>.
\<close>

definition validate_value :: "AttributeCatalog \<Rightarrow> string \<Rightarrow> pyval \<Rightarrow> error + bool" where
  "validate_value attributes attr_name v =
     (case attributes attr_name of
        None \<Rightarrow> Inl (ValueError (UnknownAttribute attr_name))
      | Some attr \<Rightarrow>
          (case attr_type attr of
             INTEGER \<Rightarrow>
               (case v of
                  PInt i \<Rightarrow> Inr (in_range attr (Fin (of_int i)))
                | PBool b \<Rightarrow> Inr (in_range attr (Fin (if b then 1 else 0)))
                | _ \<Rightarrow> Inr False)
           | FLOAT \<Rightarrow>
               (case as_num v of
                  Some x \<Rightarrow> Inr (in_range attr x)
                | None \<Rightarrow> Inr False)
           | BOOLEAN \<Rightarrow> (case v of PBool b \<Rightarrow> Inr True | _ \<Rightarrow> Inr False)
           | STRING \<Rightarrow>
               (case v of
                  PStr s \<Rightarrow>
                    (case allowed_values attr of
                       None \<Rightarrow> Inl (TypeError ''in'')
                     | Some allowed \<Rightarrow> Inr (s \<in> allowed))
                | _ \<Rightarrow> Inr False)))"

section \<open>The rule engine\<close>

record Rule =
  rule_name :: string
  rule_str :: string
  ast :: node
  decision_tree :: dtree

record RuleEngine =
  catalog :: AttributeCatalog
  rules :: "string \<rightharpoonup> Rule"

text \<open>The local function \<open>validate_attributes\<close> of \<open>create_rule\<close>.\<close>

fun validate_attributes :: "AttributeCatalog \<Rightarrow> node \<Rightarrow> error + unit"
  and validate_children :: "AttributeCatalog \<Rightarrow> node list \<Rightarrow> error + unit" where
  "validate_attributes attributes (Condition attribute opr v invertion) =
     (if attributes attribute = None then Inl (ValueError (UnknownAttributeInRule attribute))
      else Inr ())"
| "validate_attributes attributes (Operation opr children invertion) =
     validate_children attributes children"
| "validate_children attributes [] = Inr ()"
| "validate_children attributes (child # rest) =
     (case validate_attributes attributes child of
        Inl e \<Rightarrow> Inl e
      | Inr u \<Rightarrow> validate_children attributes rest)"

definition create_rule :: "RuleEngine \<Rightarrow> string \<Rightarrow> string \<Rightarrow> (error + Rule) \<times> RuleEngine" where
  "create_rule engine nm rule_text =
     (if rules engine nm \<noteq> None then (Inl (ValueError (RuleExists nm)), engine)
      else
        (case parse_rule rule_text of
           Inl e \<Rightarrow> (Inl e, engine)
         | Inr tree \<Rightarrow>
             (case validate_attributes (catalog engine) tree of
                Inl e \<Rightarrow> (Inl e, engine)
              | Inr u \<Rightarrow>
                  (case transform_to_decision_tree tree of
                     Inl e \<Rightarrow> (Inl e, engine)
                   | Inr dt \<Rightarrow>
                       (let rule = \<lparr>rule_name = nm, rule_str = rule_text, ast = tree,
                                    decision_tree = dt\<rparr>
                        in (Inr rule, engine\<lparr>rules := (rules engine)(nm \<mapsto> rule)\<rparr>))))))"

text \<open>\<open>self.rules.pop(name)\<close>, then \<open>create_rule\<close> on what is left.\<close>

definition modify_rule :: "RuleEngine \<Rightarrow> string \<Rightarrow> string \<Rightarrow> (error + Rule) \<times> RuleEngine" where
  "modify_rule engine nm new_rule_str =
     (if rules engine nm = None then (Inl (ValueError (RuleMissing nm)), engine)
      else create_rule (engine\<lparr>rules := (rules engine)(nm := None)\<rparr>) nm new_rule_str)"

text \<open>
  The loop of \<open>combine_rules\<close>. Every stored rule has an AST object of its own, and the
  children are a set of objects: a rule named twice is one child.
\<close>

fun collect_asts :: "(string \<rightharpoonup> Rule) \<Rightarrow> string list \<Rightarrow> string list \<Rightarrow> node \<Rightarrow> error + node" where
  "collect_asts rs seen [] combined_operation = Inr combined_operation"
| "collect_asts rs seen (rn # rest) combined_operation =
     (case rs rn of
        None \<Rightarrow> Inl (ValueError (RuleMissing rn))
      | Some r \<Rightarrow>
          if rn \<in> set seen then collect_asts rs seen rest combined_operation
          else collect_asts rs (rn # seen) rest (add combined_operation (ast r)))"

text \<open>\<open>f" {operator} ".join(f"({self.rules[name].rule_str})" for name in rule_names)\<close>\<close>

fun join :: "string \<Rightarrow> string list \<Rightarrow> string" where
  "join sep [] = []"
| "join sep [x] = x"
| "join sep (x # y # ys) = x @ sep @ join sep (y # ys)"

definition combine_rules ::
  "RuleEngine \<Rightarrow> string \<Rightarrow> string list \<Rightarrow> string \<Rightarrow> (error + Rule) \<times> RuleEngine" where
  "combine_rules engine nm rule_names operator =
     (if lower operator \<noteq> ''and'' \<and> lower operator \<noteq> ''or''
        then (Inl (ValueError BadOperator), engine)
      else if rules engine nm \<noteq> None then (Inl (ValueError (RuleExists nm)), engine)
      else
        (case collect_asts (rules engine) [] rule_names (Operation (lower operator) [] False) of
           Inl e \<Rightarrow> (Inl e, engine)
         | Inr combined_operation \<Rightarrow>
             (case transform_to_decision_tree combined_operation of
                Inl e \<Rightarrow> (Inl e, engine)
              | Inr dt \<Rightarrow>
                  (let text = join ('' '' @ operator @ '' '')
                                (map (\<lambda>n. ''('' @ rule_str (the (rules engine n)) @ '')'')
                                   rule_names);
                       rule = \<lparr>rule_name = nm, rule_str = text, ast = combined_operation,
                                decision_tree = dt\<rparr>
                   in (Inr rule, engine\<lparr>rules := (rules engine)(nm \<mapsto> rule)\<rparr>)))))"

text \<open>
  The validation loop of \<open>evaluate\<close>: only the keys that name a catalog attribute are
  checked, in the order of the dict.
\<close>

fun validate_candidate :: "AttributeCatalog \<Rightarrow> candidate \<Rightarrow> error + unit" where
  "validate_candidate attributes [] = Inr ()"
| "validate_candidate attributes ((attr_name, v) # rest) =
     (if attributes attr_name \<noteq> None then
        (case validate_value attributes attr_name v of
           Inl e \<Rightarrow> Inl e
         | Inr ok \<Rightarrow>
             if \<not> ok then Inl (ValueError (InvalidValue attr_name v))
             else validate_candidate attributes rest)
      else validate_candidate attributes rest)"

definition evaluate :: "RuleEngine \<Rightarrow> string \<Rightarrow> candidate \<Rightarrow> error + bool" where
  "evaluate engine rn c =
     (case rules engine rn of
        None \<Rightarrow> Inl (ValueError (RuleMissing rn))
      | Some rule \<Rightarrow>
          (case validate_candidate (catalog engine) c of
             Inl e \<Rightarrow> Inl e
           | Inr u \<Rightarrow> walk (decision_tree rule) c))"

section \<open>Notions used in the statements\<close>

text \<open>
  What a token adds to the parenthesis count, the count of a whole token list, and the
  lists none of whose prefixes takes a count starting at \<open>c\<close> below zero.
\<close>

definition paren_delta :: "string \<Rightarrow> int" where
  "paren_delta t = (if t = ''('' then 1 else if t = '')'' then - 1 else 0)"

definition balance :: "string list \<Rightarrow> int" where
  "balance ts = sum_list (map paren_delta ts)"

fun never_negative :: "int \<Rightarrow> string list \<Rightarrow> bool" where
  "never_negative c [] = True"
| "never_negative c (t # ts) = (0 \<le> c + paren_delta t \<and> never_negative (c + paren_delta t) ts)"

text \<open>
  The catalog of the examples: an integer attribute \<open>age\<close> without bounds, and an engine
  on it with no rule. A string attribute without allowed values, which the catalog
  refuses.
\<close>

definition age_attribute :: AttributeDefinition where
  "age_attribute = \<lparr>name = ''age'', attr_type = INTEGER, min_value = None, max_value = None,
                     allowed_values = None\<rparr>"

definition age_engine :: RuleEngine where
  "age_engine = \<lparr>catalog = [''age'' \<mapsto> age_attribute], rules = Map.empty\<rparr>"

definition unconstrained_attribute :: AttributeDefinition where
  "unconstrained_attribute = \<lparr>name = ''country'', attr_type = STRING, min_value = None,
                          max_value = None, allowed_values = None\<rparr>"




text \<open>
  The attributes of the conditions of a rule, one entry per condition; a rule with at
  most one condition per attribute; a candidate that supplies every attribute of a rule.
\<close>

fun attributes_of :: "node \<Rightarrow> string list"
  and attributes_of_children :: "node list \<Rightarrow> string list" where
  "attributes_of (Condition attribute opr v invertion) = [attribute]"
| "attributes_of (Operation opr children invertion) = attributes_of_children children"
| "attributes_of_children [] = []"
| "attributes_of_children (child # rest) = attributes_of child @ attributes_of_children rest"

definition one_condition_per_attribute :: "node \<Rightarrow> bool" where
  "one_condition_per_attribute a = distinct (attributes_of a)"

definition supplies :: "candidate \<Rightarrow> node \<Rightarrow> bool" where
  "supplies c a = list_all (\<lambda>x. map_of c x \<noteq> None) (attributes_of a)"

text \<open>The engine after \<open>create_rule\<close> of \<open>r1\<close> as \<open>age > 18\<close> and of \<open>r2\<close> as \<open>age < 65\<close>.\<close>

definition two_rules_engine :: RuleEngine where
  "two_rules_engine =
     snd (create_rule (snd (create_rule age_engine ''r1'' ''age > 18'')) ''r2'' ''age < 65'')"

section \<open>The tokenizer's errors\<close>

lemma count_parens_Cons:
  "count_parens c pos (t # ts) =
     (if c + paren_delta t < 0 then Inl (ParseError ''Unmatched closing parenthesis'' pos t)
      else count_parens (c + paren_delta t) (pos + 1) ts)"
  by (simp add: paren_delta_def Let_def)

lemma balance_Cons: "balance (t # ts) = paren_delta t + balance ts"
  by (simp add: balance_def)

lemma count_parens_balanced:
  "never_negative c ts \<Longrightarrow> count_parens c pos ts = Inr (c + balance ts)"
proof (induction ts arbitrary: c pos)
  case Nil
  then show ?case by (simp add: balance_def)
next
  case (Cons t ts)
  then have "count_parens (c + paren_delta t) (pos + 1) ts = Inr ((c + paren_delta t) + balance ts)"
    by simp
  with Cons.prems show ?case
    by (simp only: count_parens_Cons balance_Cons) simp
qed

lemma count_parens_stray:
  "p < length ts \<Longrightarrow> never_negative c (take p ts) \<Longrightarrow> c + balance (take (Suc p) ts) < 0 \<Longrightarrow>
   count_parens c pos ts = Inl (ParseError ''Unmatched closing parenthesis'' (pos + p) (ts ! p))"
proof (induction ts arbitrary: c pos p)
  case Nil
  then show ?case by simp
next
  case (Cons t ts)
  show ?case
  proof (cases p)
    case 0
    with Cons.prems(3) have "c + paren_delta t < 0" by (simp add: balance_def)
    with 0 show ?thesis by (simp only: count_parens_Cons if_True) simp
  next
    case (Suc q)
    with Cons.prems have first: "\<not> c + paren_delta t < 0"
      and rest: "never_negative (c + paren_delta t) (take q ts)"
      and q: "q < length ts"
      and neg: "(c + paren_delta t) + balance (take (Suc q) ts) < 0"
      by (simp_all add: balance_Cons add.assoc)
    have "count_parens (c + paren_delta t) (pos + 1) ts
            = Inl (ParseError ''Unmatched closing parenthesis'' ((pos + 1) + q) (ts ! q))"
      using q rest neg by (rule Cons.IH)
    with first Suc show ?thesis
      by (simp only: count_parens_Cons if_False) simp
  qed
qed

lemma never_negative_balance: "0 \<le> c \<Longrightarrow> never_negative c ts \<Longrightarrow> 0 \<le> c + balance ts"
proof (induction ts arbitrary: c)
  case Nil
  then show ?case by (simp add: balance_def)
next
  case (Cons t ts)
  then have "0 \<le> (c + paren_delta t) + balance ts" by simp
  then show ?case by (simp add: balance_Cons add.assoc)
qed

lemma stray_is_closing:
  assumes "p < length ts" "never_negative 0 (take p ts)" "balance (take (Suc p) ts) < 0"
  shows "ts ! p = '')''"
proof -
  have "take (Suc p) ts = take p ts @ [ts ! p]"
    using assms(1) by (simp add: take_Suc_conv_app_nth)
  then have "balance (take (Suc p) ts) = balance (take p ts) + paren_delta (ts ! p)"
    by (simp add: balance_def)
  moreover have "0 \<le> balance (take p ts)"
    using never_negative_balance [OF _ assms(2)] by simp
  ultimately have "paren_delta (ts ! p) < 0" using assms(3) by simp
  then show ?thesis by (simp add: paren_delta_def split: if_splits)
qed

text \<open>
  C7. Tokenizing a blank or whitespace-only string fails with a \<open>ParseError\<close> at
  position 0. When the token at position \<open>p\<close> is the first to take the parenthesis count
  below zero, tokenizing fails with a \<open>ParseError\<close> that carries \<open>p\<close> and that token,
  which is a closing parenthesis. When the count never goes below zero and ends above
  zero, tokenizing fails with a \<open>ParseError\<close> at the position of the last token.
\<close>

theorem tokenize_rule_errors:
  "(list_all is_space rule \<longrightarrow> tokenize_rule rule = Inl (ParseError ''Empty rule string'' 0 []))
   \<and> (\<not> list_all is_space rule \<and> p < length (split_tokens rule)
        \<and> never_negative 0 (take p (split_tokens rule))
        \<and> balance (take (Suc p) (split_tokens rule)) < 0
      \<longrightarrow> split_tokens rule ! p = '')''
          \<and> tokenize_rule rule = Inl (ParseError ''Unmatched closing parenthesis'' p '')''))
   \<and> (\<not> list_all is_space rule
        \<and> never_negative 0 (split_tokens rule) \<and> 0 < balance (split_tokens rule)
      \<longrightarrow> tokenize_rule rule
            = Inl (ParseError ''Unmatched opening parenthesis'' (length (split_tokens rule) - 1) []))"
proof (intro conjI impI)
  assume "list_all is_space rule"
  then show "tokenize_rule rule = Inl (ParseError ''Empty rule string'' 0 [])"
    by (simp add: tokenize_rule_def)
next
  assume a: "\<not> list_all is_space rule \<and> p < length (split_tokens rule)
        \<and> never_negative 0 (take p (split_tokens rule))
        \<and> balance (take (Suc p) (split_tokens rule)) < 0"
  then show closing: "split_tokens rule ! p = '')''"
    using stray_is_closing [of p "split_tokens rule"] by simp
  from a have "count_parens 0 0 (split_tokens rule)
      = Inl (ParseError ''Unmatched closing parenthesis'' (0 + p) (split_tokens rule ! p))"
    by (intro count_parens_stray) simp_all
  moreover from a have "split_tokens rule \<noteq> []" by auto
  ultimately show "tokenize_rule rule = Inl (ParseError ''Unmatched closing parenthesis'' p '')'')"
    using a closing by (simp add: tokenize_rule_def validate_tokens_def Let_def)
next
  assume a: "\<not> list_all is_space rule
        \<and> never_negative 0 (split_tokens rule) \<and> 0 < balance (split_tokens rule)"
  then have "count_parens 0 0 (split_tokens rule) = Inr (0 + balance (split_tokens rule))"
    by (intro count_parens_balanced) simp
  moreover from a have "split_tokens rule \<noteq> []" by (auto simp: balance_def)
  ultimately show "tokenize_rule rule
            = Inl (ParseError ''Unmatched opening parenthesis'' (length (split_tokens rule) - 1) [])"
    using a by (simp add: tokenize_rule_def validate_tokens_def Let_def)
qed


text \<open>The two inputs of the specification, \<open>a > 1)\<close> and \<open>(a > 1\<close>, and a blank one.\<close>

lemma split_tokens_stray: "split_tokens ''a > 1)'' = [''a'', ''>'', ''1'', '')'']"
  by code_simp

lemma split_tokens_unmatched: "split_tokens ''(a > 1'' = [''('', ''a'', ''>'', ''1'']"
  by code_simp

theorem tokenize_rule_errors_witness:
  "list_all is_space [CHR '' '', CHR 0x09]
   \<and> tokenize_rule [CHR '' '', CHR 0x09] = Inl (ParseError ''Empty rule string'' 0 [])
   \<and> tokenize_rule ''a > 1)'' = Inl (ParseError ''Unmatched closing parenthesis'' 3 '')'')
   \<and> tokenize_rule ''(a > 1'' = Inl (ParseError ''Unmatched opening parenthesis'' 3 [])"
proof -
  have blank: "list_all is_space [CHR '' '', CHR 0x09]" by (simp add: is_space_def)
  have stray: "\<not> list_all is_space ''a > 1)'' \<and> 3 < length (split_tokens ''a > 1)'')
      \<and> never_negative 0 (take 3 (split_tokens ''a > 1)''))
      \<and> balance (take (Suc 3) (split_tokens ''a > 1)'')) < 0"
    by (simp add: split_tokens_stray is_space_def balance_def paren_delta_def)
  have unmatched: "\<not> list_all is_space ''(a > 1''
      \<and> never_negative 0 (split_tokens ''(a > 1'') \<and> 0 < balance (split_tokens ''(a > 1'')"
    by (simp add: split_tokens_unmatched is_space_def balance_def paren_delta_def)
  have len: "length (split_tokens ''(a > 1'') - 1 = 3"
    by (simp add: split_tokens_unmatched)
  from tokenize_rule_errors [of "[CHR '' '', CHR 0x09]"] blank
  have w1: "tokenize_rule [CHR '' '', CHR 0x09] = Inl (ParseError ''Empty rule string'' 0 [])"
    by blast
  from tokenize_rule_errors [of "''a > 1)''" 3] stray
  have w2: "tokenize_rule ''a > 1)'' = Inl (ParseError ''Unmatched closing parenthesis'' 3 '')'')"
    by blast
  from tokenize_rule_errors [of "''(a > 1''"] unmatched
  have w3: "tokenize_rule ''(a > 1''
      = Inl (ParseError ''Unmatched opening parenthesis'' (length (split_tokens ''(a > 1'') - 1) [])"
    by blast
  from blank w1 w2 w3 show ?thesis by (simp only: len) 
qed

section \<open>State after a failed mutation\<close>

lemma add_attribute_failure:
  "fst (add_attribute attributes d) = Inl err \<Longrightarrow> snd (add_attribute attributes d) = attributes"
  by (auto simp: add_attribute_def split: if_splits)

lemma create_rule_failure:
  "fst (create_rule engine nm txt) = Inl err \<Longrightarrow> snd (create_rule engine nm txt) = engine"
  by (auto simp: create_rule_def Let_def split: if_splits sum.splits)

lemma combine_rules_failure:
  "fst (combine_rules engine nm names opr) = Inl err \<Longrightarrow>
     snd (combine_rules engine nm names opr) = engine"
  by (auto simp: combine_rules_def Let_def split: if_splits sum.splits)

lemma create_rule_parse_failure:
  "rules engine nm = None \<Longrightarrow> parse_rule txt = Inl err \<Longrightarrow>
     create_rule engine nm txt = (Inl err, engine)"
  by (simp add: create_rule_def)

lemma create_rule_validate_failure:
  "rules engine nm = None \<Longrightarrow> parse_rule txt = Inr a \<Longrightarrow>
   validate_attributes (catalog engine) a = Inl err \<Longrightarrow>
     create_rule engine nm txt = (Inl err, engine)"
  by (simp add: create_rule_def)

text \<open>
  C6. When \<open>add_attribute\<close>, \<open>create_rule\<close> or \<open>combine_rules\<close> fails, the catalog and the rule
  map are what they were before the call. \<open>modify_rule\<close> on an existing name is the
  exception: when the new text fails to parse or to validate, the call fails with that
  error, the old rule is removed and nothing else has changed, so no rule has that name
  afterwards.
\<close>

theorem failed_mutation_state:
  "(fst (add_attribute attributes d) = Inl err
      \<longrightarrow> snd (add_attribute attributes d) = attributes)
   \<and> (fst (create_rule engine nm txt) = Inl err \<longrightarrow> snd (create_rule engine nm txt) = engine)
   \<and> (fst (combine_rules engine nm names opr) = Inl err
      \<longrightarrow> snd (combine_rules engine nm names opr) = engine)
   \<and> (rules engine nm \<noteq> None
        \<and> (parse_rule txt = Inl err
            \<or> (\<exists>a. parse_rule txt = Inr a \<and> validate_attributes (catalog engine) a = Inl err))
      \<longrightarrow> fst (modify_rule engine nm txt) = Inl err
          \<and> snd (modify_rule engine nm txt) = engine\<lparr>rules := (rules engine)(nm := None)\<rparr>
          \<and> rules (snd (modify_rule engine nm txt)) nm = None
          \<and> catalog (snd (modify_rule engine nm txt)) = catalog engine)"
proof (intro conjI impI)
  assume "fst (add_attribute attributes d) = Inl err"
  then show "snd (add_attribute attributes d) = attributes" by (rule add_attribute_failure)
next
  assume "fst (create_rule engine nm txt) = Inl err"
  then show "snd (create_rule engine nm txt) = engine" by (rule create_rule_failure)
next
  assume "fst (combine_rules engine nm names opr) = Inl err"
  then show "snd (combine_rules engine nm names opr) = engine" by (rule combine_rules_failure)
next
  assume a: "rules engine nm \<noteq> None
        \<and> (parse_rule txt = Inl err
            \<or> (\<exists>a. parse_rule txt = Inr a \<and> validate_attributes (catalog engine) a = Inl err))"
  let ?popped = "engine\<lparr>rules := (rules engine)(nm := None)\<rparr>"
  have gone: "rules ?popped nm = None" by simp
  from a have "create_rule ?popped nm txt = (Inl err, ?popped)"
    using create_rule_parse_failure [OF gone] create_rule_validate_failure [OF gone]
    by auto
  with a have m: "modify_rule engine nm txt = (Inl err, ?popped)"
    by (auto simp: modify_rule_def)
  show "fst (modify_rule engine nm txt) = Inl err" by (simp add: m)
  show "snd (modify_rule engine nm txt) = ?popped" by (simp add: m)
  show "rules (snd (modify_rule engine nm txt)) nm = None" by (simp add: m)
  show "catalog (snd (modify_rule engine nm txt)) = catalog engine" by (simp add: m)
qed


text \<open>Evaluations used by the examples.\<close>

lemma parse_rule_age_gt_18: "parse_rule ''age > 18'' = Inr (Condition ''age'' ''>'' (PInt 18) False)"
  by code_simp

lemma transform_age_gt_18:
  "transform_to_decision_tree (Condition ''age'' ''>'' (PInt 18) False)
     = Inr (Decision ''age'' ''>'' (PInt 18) (Result False) (Result False))"
  by code_simp

lemma parse_rule_truncated:
  "parse_rule ''age >'' = Inl (ParseError (''Missing value after operator '' @ [CHR 0x27] @ ''>'' @ [CHR 0x27]) 2 [])"
  by code_simp

theorem failed_mutation_state_witness:
  "fst (add_attribute Map.empty unconstrained_attribute) = Inl (ValueError StringNeedsAllowedValues)
   \<and> snd (add_attribute Map.empty unconstrained_attribute) = Map.empty
   \<and> fst (create_rule age_engine ''r'' ''age >'')
       = Inl (ParseError (''Missing value after operator '' @ [CHR 0x27] @ ''>'' @ [CHR 0x27]) 2 [])
   \<and> snd (create_rule age_engine ''r'' ''age >'') = age_engine
   \<and> fst (combine_rules age_engine ''c'' [''r''] ''and'') = Inl (ValueError (RuleMissing ''r''))
   \<and> snd (combine_rules age_engine ''c'' [''r''] ''and'') = age_engine
   \<and> rules (snd (create_rule age_engine ''r'' ''age > 18'')) ''r'' \<noteq> None
   \<and> fst (modify_rule (snd (create_rule age_engine ''r'' ''age > 18'')) ''r'' ''age >'')
       = Inl (ParseError (''Missing value after operator '' @ [CHR 0x27] @ ''>'' @ [CHR 0x27]) 2 [])
   \<and> rules (snd (modify_rule (snd (create_rule age_engine ''r'' ''age > 18'')) ''r'' ''age >''))
        ''r'' = None"
proof -
  let ?e = "ParseError (''Missing value after operator '' @ [CHR 0x27] @ ''>'' @ [CHR 0x27]) 2 []"
  let ?stored = "snd (create_rule age_engine ''r'' ''age > 18'')"
  have a: "fst (add_attribute Map.empty unconstrained_attribute) = Inl (ValueError StringNeedsAllowedValues)"
    by (simp add: add_attribute_def unconstrained_attribute_def)
  have c: "fst (create_rule age_engine ''r'' ''age >'') = Inl ?e"
    by (simp add: create_rule_def age_engine_def parse_rule_truncated)
  have k: "fst (combine_rules age_engine ''c'' [''r''] ''and'') = Inl (ValueError (RuleMissing ''r''))"
    by (simp add: combine_rules_def age_engine_def lower_def lower_char_def)
  have s: "rules ?stored ''r'' \<noteq> None"
    by (simp add: create_rule_def age_engine_def parse_rule_age_gt_18 transform_age_gt_18 Let_def)
  from failed_mutation_state [of Map.empty unconstrained_attribute] a
  have a': "snd (add_attribute Map.empty unconstrained_attribute) = Map.empty" by blast
  from failed_mutation_state [of _ _ _ age_engine "''r''" "''age >''"] c
  have c': "snd (create_rule age_engine ''r'' ''age >'') = age_engine" by blast
  from failed_mutation_state [of _ _ _ age_engine "''c''" _ "[''r'']" "''and''"] k
  have k': "snd (combine_rules age_engine ''c'' [''r''] ''and'') = age_engine" by blast
  from failed_mutation_state [of _ _ ?e ?stored "''r''" "''age >''"] s parse_rule_truncated
  have m: "fst (modify_rule ?stored ''r'' ''age >'') = Inl ?e
           \<and> rules (snd (modify_rule ?stored ''r'' ''age >'')) ''r'' = None"
    by blast
  from a a' c c' k k' s m show ?thesis by blast
qed

section \<open>Creating and evaluating rules\<close>

lemma create_rule_success:
  "rules engine nm = None \<Longrightarrow> parse_rule txt = Inr a \<Longrightarrow>
   validate_attributes (catalog engine) a = Inr () \<Longrightarrow> transform_to_decision_tree a = Inr dt \<Longrightarrow>
   create_rule engine nm txt
     = (Inr \<lparr>rule_name = nm, rule_str = txt, ast = a, decision_tree = dt\<rparr>,
        engine\<lparr>rules := (rules engine)
                   (nm \<mapsto> \<lparr>rule_name = nm, rule_str = txt, ast = a, decision_tree = dt\<rparr>)\<rparr>)"
  by (simp add: create_rule_def Let_def)

lemma evaluate_stored:
  "rules engine nm = Some r \<Longrightarrow> validate_candidate (catalog engine) c = Inr () \<Longrightarrow>
   evaluate engine nm c = walk (decision_tree r) c"
  by (simp add: evaluate_def)

section \<open>The compiled tree of a single condition\<close>

text \<open>
  C1. With an integer attribute \<open>age\<close> in the catalog, \<open>create_rule\<close> accepts
  \<open>age > 18\<close>. The AST of the rule is true on \<open>{age: 19}\<close>, but \<open>evaluate\<close> returns false
  there, as it does on \<open>{age: 18}\<close>: both leaves of the compiled tree are false, since the
  compiler tries the condition on \<open>age = 18\<close> and on \<open>age = 17\<close> only.
\<close>

theorem strict_comparison_rule:
  assumes "catalog engine ''age'' = Some d" and "attr_type d = INTEGER"
    and "in_range d (Fin 19)" and "in_range d (Fin 18)" and "rules engine ''r'' = None"
  shows "\<exists>r engine'. create_rule engine ''r'' ''age > 18'' = (Inr r, engine')
           \<and> node_eval (ast r) [(''age'', PInt 19)] = Inr True
           \<and> evaluate engine' ''r'' [(''age'', PInt 19)] = Inr False
           \<and> evaluate engine' ''r'' [(''age'', PInt 18)] = Inr False"
proof -
  let ?a = "Condition ''age'' ''>'' (PInt 18) False"
  let ?dt = "Decision ''age'' ''>'' (PInt 18) (Result False) (Result False)"
  let ?r = "\<lparr>rule_name = ''r'', rule_str = ''age > 18'', ast = ?a, decision_tree = ?dt\<rparr>"
  let ?e = "engine\<lparr>rules := (rules engine)(''r'' \<mapsto> ?r)\<rparr>"
  have known: "validate_attributes (catalog engine) ?a = Inr ()"
    using assms by simp
  have created: "create_rule engine ''r'' ''age > 18'' = (Inr ?r, ?e)"
    using assms(5) parse_rule_age_gt_18 known transform_age_gt_18 by (rule create_rule_success)
  have direct: "node_eval (ast ?r) [(''age'', PInt 19)] = Inr True"
    by (simp add: compare_def py_gt_def)
  have c19: "validate_candidate (catalog ?e) [(''age'', PInt 19)] = Inr ()"
    using assms by (simp add: validate_value_def)
  have c18: "validate_candidate (catalog ?e) [(''age'', PInt 18)] = Inr ()"
    using assms by (simp add: validate_value_def)
  have "evaluate ?e ''r'' [(''age'', PInt 19)] = walk ?dt [(''age'', PInt 19)]"
    using evaluate_stored [of ?e "''r''" ?r, OF _ c19] by simp
  then have e19: "evaluate ?e ''r'' [(''age'', PInt 19)] = Inr False"
    by (simp add: compare_def py_gt_def)
  have "evaluate ?e ''r'' [(''age'', PInt 18)] = walk ?dt [(''age'', PInt 18)]"
    using evaluate_stored [of ?e "''r''" ?r, OF _ c18] by simp
  then have e18: "evaluate ?e ''r'' [(''age'', PInt 18)] = Inr False"
    by (simp add: compare_def py_gt_def)
  from created direct e19 e18 show ?thesis by blast
qed

theorem strict_comparison_rule_witness:
  "catalog age_engine ''age'' = Some age_attribute \<and> attr_type age_attribute = INTEGER
   \<and> in_range age_attribute (Fin 19) \<and> in_range age_attribute (Fin 18)
   \<and> rules age_engine ''r'' = None
   \<and> (\<exists>r engine'. create_rule age_engine ''r'' ''age > 18'' = (Inr r, engine')
           \<and> node_eval (ast r) [(''age'', PInt 19)] = Inr True
           \<and> evaluate engine' ''r'' [(''age'', PInt 19)] = Inr False
           \<and> evaluate engine' ''r'' [(''age'', PInt 18)] = Inr False)"
proof -
  have h: "catalog age_engine ''age'' = Some age_attribute" "attr_type age_attribute = INTEGER"
    "in_range age_attribute (Fin 19)" "in_range age_attribute (Fin 18)"
    "rules age_engine ''r'' = None"
    by (simp_all add: age_engine_def age_attribute_def in_range_def)
  from strict_comparison_rule [OF h] h show ?thesis by blast
qed

text \<open>
  C2. The rule \<open>age > 18\<close> has one condition, and the candidate \<open>{age: 19}\<close> supplies its
  attribute; the AST evaluates to true and the compiled tree to false. An operation over
  conditions on two attributes has no compiled tree at all: the compiler evaluates it on
  a candidate with one attribute.
\<close>

theorem tree_differs_from_ast:
  "parse_rule ''age > 18'' = Inr (Condition ''age'' ''>'' (PInt 18) False)
   \<and> one_condition_per_attribute (Condition ''age'' ''>'' (PInt 18) False)
   \<and> supplies [(''age'', PInt 19)] (Condition ''age'' ''>'' (PInt 18) False)
   \<and> transform_to_decision_tree (Condition ''age'' ''>'' (PInt 18) False)
       = Inr (Decision ''age'' ''>'' (PInt 18) (Result False) (Result False))
   \<and> node_eval (Condition ''age'' ''>'' (PInt 18) False) [(''age'', PInt 19)] = Inr True
   \<and> walk (Decision ''age'' ''>'' (PInt 18) (Result False) (Result False)) [(''age'', PInt 19)]
       = Inr False
   \<and> one_condition_per_attribute
        (Operation ''and'' [Condition ''age'' ''>'' (PInt 18) False,
                           Condition ''country'' ''='' (PStr ''us'') False] False)
   \<and> transform_to_decision_tree
        (Operation ''and'' [Condition ''age'' ''>'' (PInt 18) False,
                           Condition ''country'' ''='' (PStr ''us'') False] False)
       = Inl (ValueError (MissingAttribute ''country''))"
  by (intro conjI; code_simp)

section \<open>Rules with more than one condition\<close>

lemma create_decision_tree_Bool:
  "create_decision_tree (Bool b) (t # ts) = Inl (AttributeError ''eval'')"
  by (cases t) simp

lemma create_decision_tree_two:
  "isl (create_decision_tree n (s # t # ts))"
proof (cases n)
  case (Bool b)
  then show ?thesis by (simp add: create_decision_tree_Bool)
next
  case (Ast a)
  obtain attr opr val where s: "s = (attr, opr, val)" by (cases s)
  show ?thesis
    unfolding Ast s
    by (simp add: create_decision_tree_Bool split: sum.splits)
qed

text \<open>
  C3. \<open>create_decision_tree\<close> fails whenever two or more conditions remain, whatever
  their order: its recursive calls pass a boolean where a node is evaluated. So
  \<open>combine_rules\<close> of the existing rules \<open>age > 18\<close> and \<open>age < 65\<close> raises an
  \<open>AttributeError\<close>, with \<open>and\<close> as with \<open>or\<close>.
\<close>

theorem combine_rules_fails:
  "isl (create_decision_tree n (s # t # ts))
   \<and> rules two_rules_engine ''r1'' \<noteq> None \<and> rules two_rules_engine ''r2'' \<noteq> None
   \<and> rules two_rules_engine ''c'' = None
   \<and> fst (combine_rules two_rules_engine ''c'' [''r1'', ''r2''] ''and'')
       = Inl (AttributeError ''eval'')
   \<and> fst (combine_rules two_rules_engine ''c'' [''r1'', ''r2''] ''or'')
       = Inl (AttributeError ''eval'')"
proof (intro conjI)
  show "isl (create_decision_tree n (s # t # ts))" by (rule create_decision_tree_two)
  show "rules two_rules_engine ''r1'' \<noteq> None" by code_simp
  show "rules two_rules_engine ''r2'' \<noteq> None" by code_simp
  show "rules two_rules_engine ''c'' = None" by code_simp
  show "fst (combine_rules two_rules_engine ''c'' [''r1'', ''r2''] ''and'')
       = Inl (AttributeError ''eval'')" by code_simp
  show "fst (combine_rules two_rules_engine ''c'' [''r1'', ''r2''] ''or'')
       = Inl (AttributeError ''eval'')" by code_simp
qed

section \<open>What the parser accepts\<close>

text \<open>
  C4. A condition met before any \<open>AND\<close> or \<open>OR\<close> is returned at once, so a rule in
  infix form is a \<open>ParseError\<close> at its first keyword; so is the text \<open>a AND b OR c\<close>
  itself, where \<open>AND\<close> stands in the place of a comparison operator. The wrapping of the
  current operation under a new connective is seen when the keywords come first.
\<close>

theorem infix_rule_rejected:
  "parse_rule ''x > 1 AND y > 2 OR z > 3''
     = Inl (ParseError ''Unexpected tokens after valid expression'' 3 ''AND'')
   \<and> parse_rule ''a AND b OR c'' = Inl (ParseError ''Invalid comparison operator'' 1 ''AND'')
   \<and> parse_rule ''(age > 18) AND (age < 65)''
     = Inl (ParseError ''Unexpected tokens after valid expression'' 5 ''AND'')
   \<and> parse_rule ''AND x > 1 y > 2 OR z > 3''
     = Inr (Operation ''or''
              [Operation ''and'' [Condition ''x'' ''>'' (PInt 1) False,
                                 Condition ''y'' ''>'' (PInt 2) False] False,
               Condition ''z'' ''>'' (PInt 3) False] False)"
  by (intro conjI; code_simp)

text \<open>
  C5. \<open>NOT\<close> is handled by \<open>parse_condition\<close> alone, which takes the parenthesis for
  the attribute name: \<open>create_rule\<close> of \<open>NOT (age > 18)\<close> is a \<open>ParseError\<close>. Without the
  parentheses the condition is negated.
\<close>

theorem negated_group_rejected:
  "parse_rule ''NOT (age > 18)'' = Inl (ParseError ''Invalid comparison operator'' 2 ''age'')
   \<and> fst (create_rule age_engine ''r'' ''NOT (age > 18)'')
       = Inl (ParseError ''Invalid comparison operator'' 2 ''age'')
   \<and> parse_rule ''NOT age > 18'' = Inr (Condition ''age'' ''>'' (PInt 18) True)"
  by (intro conjI; code_simp)

lemma parse_rule_AND: "parse_rule ''AND'' = Inr (Operation ''and'' [] False)"
  by code_simp

lemma transform_AND: "transform_to_decision_tree (Operation ''and'' [] False) = Inr (Result True)"
  by code_simp

text \<open>
  C9, amended. \<open>create_rule\<close> accepts the text \<open>AND\<close> under a fresh name: it parses to an
  operation without children, an operation without children evaluates to true, and the
  stored rule evaluates to true on every candidate that passes the catalog's validation,
  the empty candidate among them. On a candidate that the validation refuses, \<open>evaluate\<close>
  raises the error of the validation; when the first entry is a value that its catalog
  attribute does not accept, this is the \<open>ValueError\<close> for that attribute and value.
\<close>

theorem bare_keyword_rule:
  "rules engine nm = None \<longrightarrow>
     parse_rule ''AND'' = Inr (Operation ''and'' [] False)
     \<and> node_eval (Operation opr [] invertion) c = Inr True
     \<and> (\<exists>r engine'. create_rule engine nm ''AND'' = (Inr r, engine')
          \<and> ast r = Operation ''and'' [] False
          \<and> (\<forall>c. validate_candidate (catalog engine) c = Inr ()
                 \<longrightarrow> evaluate engine' nm c = Inr True)
          \<and> evaluate engine' nm [] = Inr True
          \<and> (\<forall>c e. validate_candidate (catalog engine) c = Inl e
                 \<longrightarrow> evaluate engine' nm c = Inl e)
          \<and> (\<forall>a v rest. catalog engine a \<noteq> None
                   \<and> validate_value (catalog engine) a v = Inr False
                 \<longrightarrow> evaluate engine' nm ((a, v) # rest) = Inl (ValueError (InvalidValue a v))))"
proof
  assume fresh: "rules engine nm = None"
  let ?a = "Operation ''and'' [] False"
  let ?r = "\<lparr>rule_name = nm, rule_str = ''AND'', ast = ?a, decision_tree = Result True\<rparr>"
  let ?e = "engine\<lparr>rules := (rules engine)(nm \<mapsto> ?r)\<rparr>"
  have known: "validate_attributes (catalog engine) ?a = Inr ()" by simp
  have created: "create_rule engine nm ''AND'' = (Inr ?r, ?e)"
    using fresh parse_rule_AND known transform_AND by (rule create_rule_success)
  have ev: "evaluate ?e nm c = Inr True" if "validate_candidate (catalog engine) c = Inr ()" for c
    using that by (simp add: evaluate_def)
  have empty: "evaluate ?e nm [] = Inr True" by (simp add: ev)
  have refused: "evaluate ?e nm c = Inl e" if "validate_candidate (catalog engine) c = Inl e" for c e
    using that by (simp add: evaluate_def)
  have invalid: "evaluate ?e nm ((a, v) # rest) = Inl (ValueError (InvalidValue a v))"
    if "catalog engine a \<noteq> None \<and> validate_value (catalog engine) a v = Inr False" for a v rest
    using that by (intro refused) auto
  have "\<exists>r engine'. create_rule engine nm ''AND'' = (Inr r, engine')
          \<and> ast r = Operation ''and'' [] False
          \<and> (\<forall>c. validate_candidate (catalog engine) c = Inr ()
                 \<longrightarrow> evaluate engine' nm c = Inr True)
          \<and> evaluate engine' nm [] = Inr True
          \<and> (\<forall>c e. validate_candidate (catalog engine) c = Inl e
                 \<longrightarrow> evaluate engine' nm c = Inl e)
          \<and> (\<forall>a v rest. catalog engine a \<noteq> None
                   \<and> validate_value (catalog engine) a v = Inr False
                 \<longrightarrow> evaluate engine' nm ((a, v) # rest) = Inl (ValueError (InvalidValue a v)))"
  proof (intro exI [of _ ?r] exI [of _ ?e] conjI allI impI)
    show "create_rule engine nm ''AND'' = (Inr ?r, ?e)" by (rule created)
    show "ast ?r = Operation ''and'' [] False" by simp
    show "evaluate ?e nm [] = Inr True" by (rule empty)
  next
    fix c assume "validate_candidate (catalog engine) c = Inr ()"
    then show "evaluate ?e nm c = Inr True" by (rule ev)
  next
    fix c e assume "validate_candidate (catalog engine) c = Inl e"
    then show "evaluate ?e nm c = Inl e" by (rule refused)
  next
    fix a v rest
    assume "catalog engine a \<noteq> None \<and> validate_value (catalog engine) a v = Inr False"
    then show "evaluate ?e nm ((a, v) # rest) = Inl (ValueError (InvalidValue a v))"
      by (rule invalid)
  qed
  then show "parse_rule ''AND'' = Inr (Operation ''and'' [] False)
     \<and> node_eval (Operation opr [] invertion) c = Inr True
     \<and> (\<exists>r engine'. create_rule engine nm ''AND'' = (Inr r, engine')
          \<and> ast r = Operation ''and'' [] False
          \<and> (\<forall>c. validate_candidate (catalog engine) c = Inr ()
                 \<longrightarrow> evaluate engine' nm c = Inr True)
          \<and> evaluate engine' nm [] = Inr True
          \<and> (\<forall>c e. validate_candidate (catalog engine) c = Inl e
                 \<longrightarrow> evaluate engine' nm c = Inl e)
          \<and> (\<forall>a v rest. catalog engine a \<noteq> None
                   \<and> validate_value (catalog engine) a v = Inr False
                 \<longrightarrow> evaluate engine' nm ((a, v) # rest) = Inl (ValueError (InvalidValue a v))))"
    using parse_rule_AND by simp
qed

theorem bare_keyword_rule_witness:
  "rules age_engine ''r'' = None
   \<and> validate_candidate (catalog age_engine) [(''age'', PInt 7)] = Inr ()
   \<and> catalog age_engine ''age'' \<noteq> None
   \<and> validate_value (catalog age_engine) ''age'' (PBool True) = Inr True
   \<and> validate_value (catalog age_engine) ''age'' (PFloat (Fin 7)) = Inr False
   \<and> validate_candidate (catalog age_engine) [(''age'', PFloat (Fin 7))]
       = Inl (ValueError (InvalidValue ''age'' (PFloat (Fin 7))))
   \<and> (\<exists>r engine'. create_rule age_engine ''r'' ''AND'' = (Inr r, engine')
          \<and> ast r = Operation ''and'' [] False
          \<and> evaluate engine' ''r'' [(''age'', PInt 7)] = Inr True
          \<and> evaluate engine' ''r'' [] = Inr True
          \<and> evaluate engine' ''r'' [(''age'', PFloat (Fin 7))]
              = Inl (ValueError (InvalidValue ''age'' (PFloat (Fin 7))))
          \<and> evaluate engine' ''r'' [(''age'', PFloat (Fin 7)), (''age'', PInt 7)]
              = Inl (ValueError (InvalidValue ''age'' (PFloat (Fin 7)))))"
proof -
  have fresh: "rules age_engine ''r'' = None" by (simp add: age_engine_def)
  have valid: "validate_candidate (catalog age_engine) [(''age'', PInt 7)] = Inr ()"
    by (simp add: age_engine_def age_attribute_def validate_value_def in_range_def)
  have known: "catalog age_engine ''age'' \<noteq> None" by (simp add: age_engine_def)
  have bool: "validate_value (catalog age_engine) ''age'' (PBool True) = Inr True"
    by (simp add: age_engine_def age_attribute_def validate_value_def in_range_def)
  have float: "validate_value (catalog age_engine) ''age'' (PFloat (Fin 7)) = Inr False"
    by (simp add: age_engine_def age_attribute_def validate_value_def)
  have refused: "validate_candidate (catalog age_engine) [(''age'', PFloat (Fin 7))]
       = Inl (ValueError (InvalidValue ''age'' (PFloat (Fin 7))))"
    using known float by simp
  from bare_keyword_rule [of age_engine "''r''"] fresh valid known bool float refused
  show ?thesis by blast
qed

text \<open>
  Not on every candidate: \<open>evaluate\<close> validates the candidate before it walks the tree,
  and a value the catalog refuses is a \<open>ValueError\<close>, also for this rule.
\<close>

theorem bare_keyword_rule_counterexample:
  "fst (create_rule age_engine ''r'' ''AND'')
     = Inr \<lparr>rule_name = ''r'', rule_str = ''AND'', ast = Operation ''and'' [] False,
            decision_tree = Result True\<rparr>
   \<and> evaluate (snd (create_rule age_engine ''r'' ''AND'')) ''r'' [(''age'', PStr ''abc'')]
       = Inl (ValueError (InvalidValue ''age'' (PStr ''abc'')))"
proof -
  let ?a = "Operation ''and'' [] False"
  let ?r = "\<lparr>rule_name = ''r'', rule_str = ''AND'', ast = ?a, decision_tree = Result True\<rparr>"
  let ?e = "age_engine\<lparr>rules := (rules age_engine)(''r'' \<mapsto> ?r)\<rparr>"
  have fresh: "rules age_engine ''r'' = None" by (simp add: age_engine_def)
  have known: "validate_attributes (catalog age_engine) ?a = Inr ()" by simp
  have created: "create_rule age_engine ''r'' ''AND'' = (Inr ?r, ?e)"
    using fresh parse_rule_AND known transform_AND by (rule create_rule_success)
  have "evaluate ?e ''r'' [(''age'', PStr ''abc'')]
          = Inl (ValueError (InvalidValue ''age'' (PStr ''abc'')))"
    by (simp add: evaluate_def age_engine_def age_attribute_def validate_value_def)
  with created show ?thesis by simp
qed

section \<open>Equality on strings\<close>






lemma parse_rule_age_eq_abc:
  "parse_rule ''age = abc'' = Inr (Condition ''age'' ''='' (PStr ''abc'') False)"
  by code_simp

lemma transform_age_eq_abc:
  "transform_to_decision_tree (Condition ''age'' ''='' (PStr ''abc'') False)
     = Inr (Decision ''age'' ''='' (PStr ''abc'') (Result True) (Result True))"
  by code_simp

text \<open>
  C10. With an integer attribute \<open>age\<close> in the catalog, \<open>create_rule\<close> accepts
  \<open>age = abc\<close>, whose literal stays a string. Evaluating the rule on the candidate
  \<open>{age: 30}\<close>, which the catalog validates, raises an \<open>AttributeError\<close> from \<open>.lower()\<close>
  on the integer: neither a \<open>ParseError\<close> nor a \<open>ValueError\<close>.
\<close>

theorem evaluate_attribute_error:
  assumes "catalog engine ''age'' = Some d" and "attr_type d = INTEGER"
    and "in_range d (Fin 30)" and "rules engine ''r'' = None"
  shows "validate_value (catalog engine) ''age'' (PInt 30) = Inr True
    \<and> (\<exists>r engine'. create_rule engine ''r'' ''age = abc'' = (Inr r, engine')
          \<and> ast r = Condition ''age'' ''='' (PStr ''abc'') False
          \<and> evaluate engine' ''r'' [(''age'', PInt 30)] = Inl (AttributeError ''lower''))"
proof -
  let ?a = "Condition ''age'' ''='' (PStr ''abc'') False"
  let ?dt = "Decision ''age'' ''='' (PStr ''abc'') (Result True) (Result True)"
  let ?r = "\<lparr>rule_name = ''r'', rule_str = ''age = abc'', ast = ?a, decision_tree = ?dt\<rparr>"
  let ?e = "engine\<lparr>rules := (rules engine)(''r'' \<mapsto> ?r)\<rparr>"
  have valid: "validate_value (catalog engine) ''age'' (PInt 30) = Inr True"
    using assms by (simp add: validate_value_def)
  have known: "validate_attributes (catalog engine) ?a = Inr ()"
    using assms by simp
  have created: "create_rule engine ''r'' ''age = abc'' = (Inr ?r, ?e)"
    using assms(4) parse_rule_age_eq_abc known transform_age_eq_abc by (rule create_rule_success)
  have cand: "validate_candidate (catalog ?e) [(''age'', PInt 30)] = Inr ()"
    using assms(1) valid by simp
  have "evaluate ?e ''r'' [(''age'', PInt 30)] = walk (decision_tree ?r) [(''age'', PInt 30)]"
    using _ cand by (rule evaluate_stored) simp
  also have "\<dots> = Inl (AttributeError ''lower'')"
    by (simp add: compare_def)
  finally show ?thesis using valid created by simp
qed

theorem evaluate_attribute_error_witness:
  "catalog age_engine ''age'' = Some age_attribute \<and> attr_type age_attribute = INTEGER
   \<and> in_range age_attribute (Fin 30) \<and> rules age_engine ''r'' = None
   \<and> validate_value (catalog age_engine) ''age'' (PInt 30) = Inr True
   \<and> (\<exists>r engine'. create_rule age_engine ''r'' ''age = abc'' = (Inr r, engine')
          \<and> ast r = Condition ''age'' ''='' (PStr ''abc'') False
          \<and> evaluate engine' ''r'' [(''age'', PInt 30)] = Inl (AttributeError ''lower''))"
proof -
  have h: "catalog age_engine ''age'' = Some age_attribute" "attr_type age_attribute = INTEGER"
    "in_range age_attribute (Fin 30)" "rules age_engine ''r'' = None"
    by (simp_all add: age_engine_def age_attribute_def in_range_def)
  from evaluate_attribute_error [OF h] h show ?thesis by blast
qed

end
